theory Spec2Isabelle
  imports Main "HOL-Library.AList"
begin

section \<open>Python values\<close>

text \<open>
  The values that travel through \<^verbatim>\<open>nau.py\<close> are what \<^verbatim>\<open>json.load\<close> returns and
  what a connector's \<^verbatim>\<open>collect_data()\<close> hands back: \<^verbatim>\<open>None\<close>, booleans, numbers,
  strings, lists and dictionaries. A dictionary is an association list in insertion
  order; it is read with \<open>map_of\<close> and written with \<open>AList.update\<close> (replace in place,
  or append), as a Python \<^verbatim>\<open>dict\<close> is. JSON numbers are integers here.
\<close>

datatype pyval =
    PNone
  | PBool bool
  | PInt int
  | PStr string
  | PList "pyval list"
  | PDict "(string \<times> pyval) list"

type_synonym dict = "(string \<times> pyval) list"

text \<open>Python's truth value, used by \<^verbatim>\<open>if x:\<close> and \<^verbatim>\<open>not x\<close>.\<close>

fun truthy :: "pyval \<Rightarrow> bool" where
  "truthy PNone = False"
| "truthy (PBool b) = b"
| "truthy (PInt i) = (i \<noteq> 0)"
| "truthy (PStr s) = (s \<noteq> [])"
| "truthy (PList xs) = (xs \<noteq> [])"
| "truthy (PDict kvs) = (kvs \<noteq> [])"

text \<open>\<^verbatim>\<open>d.get(k, default)\<close> on a dictionary.\<close>

definition dict_get :: "(string \<times> 'v) list \<Rightarrow> string \<Rightarrow> 'v \<Rightarrow> 'v" where
  "dict_get d k dflt = (case map_of d k of None \<Rightarrow> dflt | Some v \<Rightarrow> v)"

text \<open>
  A call either raises an exception (an instance of \<^verbatim>\<open>Exception\<close>, which is what
  \<^verbatim>\<open>except Exception\<close> catches; the string is \<^verbatim>\<open>str(e)\<close>) or returns.
\<close>

datatype 'a outcome = Raises string | Returns 'a

section \<open>Effects\<close>

text \<open>
  Effects are recorded in a trace: a \<^verbatim>\<open>logger\<close> call is \<open>Log\<close> with its level, the
  message template as written in the source and the values interpolated into it; a call
  into a summarisation backend's library is \<open>Call\<close>; \<^verbatim>\<open>print(s)\<close> is \<open>Print s\<close>.
\<close>

datatype level = INFO | WARNING | ERROR

datatype event =
    Log level string "pyval list"
  | Call string "pyval list"
  | Print string

section \<open>The data classes\<close>

record AIConfig =
  provider :: pyval
  model :: pyval
  api_key :: pyval
  api_url :: pyval
  local_model_path :: pyval

text \<open>
  A loaded connector module: its global variables (type \<open>'s\<close>), and its
  \<^verbatim>\<open>initialize\<close> and \<^verbatim>\<open>collect_data\<close> attributes, \<open>None\<close> when \<^verbatim>\<open>hasattr\<close> is false.
  \<^verbatim>\<open>initialize(config)\<close> may rewrite the globals; \<^verbatim>\<open>collect_data()\<close> reads them.
\<close>

record 's module =
  globals :: 's
  initialize_attr :: "(pyval \<Rightarrow> 's \<Rightarrow> 's outcome) option"
  collect_data_attr :: "('s \<Rightarrow> pyval outcome) option"

record 's Extension =
  ext_name :: pyval
  ext_enabled :: pyval
  ext_config :: pyval
  ext_module :: "'s module option"

text \<open>
  \<^verbatim>\<open>Extension.from_dict\<close>: \<^verbatim>\<open>cls(name=data.get("name", ""),
  enabled=data.get("enabled", True), config=data.get("config", {}))\<close>, with
  \<^verbatim>\<open>module\<close> left at its default \<^verbatim>\<open>None\<close>.
\<close>

definition Extension_from_dict :: "dict \<Rightarrow> 's Extension" where
  "Extension_from_dict data =
     \<lparr> ext_name = dict_get data ''name'' (PStr ''''),
       ext_enabled = dict_get data ''enabled'' (PBool True),
       ext_config = dict_get data ''config'' (PDict []),
       ext_module = None \<rparr>"

text \<open>
  \<^verbatim>\<open>AIConfig.from_dict\<close>; a \<^verbatim>\<open>data.get(k)\<close> without default yields \<^verbatim>\<open>None\<close>.
\<close>

definition AIConfig_from_dict :: "dict \<Rightarrow> AIConfig" where
  "AIConfig_from_dict data =
     \<lparr> provider = dict_get data ''provider'' (PStr ''local''),
       model = dict_get data ''model'' (PStr ''llama3''),
       api_key = dict_get data ''api_key'' PNone,
       api_url = dict_get data ''api_url'' PNone,
       local_model_path = dict_get data ''local_model_path'' PNone \<rparr>"

section \<open>The application object\<close>

text \<open>
  The fields of \<^verbatim>\<open>DevAssist\<close>, and the trace of the effects performed so far.
\<close>

record 's DevAssist =
  config :: pyval
  ai_config :: "AIConfig option"
  extensions :: "(string \<times> 's Extension) list"
  initialized :: bool
  trace :: "event list"

subsection \<open>\<^verbatim>\<open>collect_data\<close>\<close>

text \<open>
  The body of the loop of \<^verbatim>\<open>DevAssist.collect_data\<close> for one item
  \<^verbatim>\<open>(name, extension)\<close>, on the pair of \<^verbatim>\<open>data\<close> and the trace:
  \<^verbatim>\<open>
    if not extension.enabled or not extension.module: continue
    try:
        if hasattr(extension.module, "collect_data"):
            extension_data = extension.module.collect_data()
            if extension_data:
                data[name] = extension_data
    except Exception as e:
        logger.error(f"Error collecting data from {name}: {e}")
  \<close>
\<close>

definition collect_step ::
  "string \<Rightarrow> 's Extension \<Rightarrow> dict \<times> event list \<Rightarrow> dict \<times> event list" where
  "collect_step nm ext acc =
     (if \<not> truthy (ext_enabled ext) \<or> ext_module ext = None then acc
      else case ext_module ext of
        None \<Rightarrow> acc
      | Some m \<Rightarrow>
          (case collect_data_attr m of
             None \<Rightarrow> acc
           | Some f \<Rightarrow>
               (case f (globals m) of
                  Raises e \<Rightarrow>
                    (fst acc,
                     snd acc @ [Log ERROR ''Error collecting data from {name}: {e}''
                                  [PStr nm, PStr e]])
                | Returns v \<Rightarrow>
                    if truthy v then (AList.update nm v (fst acc), snd acc) else acc)))"

fun collect_loop ::
  "(string \<times> 's Extension) list \<Rightarrow> dict \<times> event list \<Rightarrow> dict \<times> event list" where
  "collect_loop [] acc = acc"
| "collect_loop ((nm, ext) # rest) acc = collect_loop rest (collect_step nm ext acc)"

definition collect_data :: "'s DevAssist \<Rightarrow> dict \<times> 's DevAssist" where
  "collect_data st =
     (let r = collect_loop (extensions st) ([], trace st)
      in (fst r, st\<lparr>trace := snd r\<rparr>))"

section \<open>The world outside the program\<close>

text \<open>
  What the program reads from its surroundings, fixed for one run:
  the directory of \<^verbatim>\<open>nau.py\<close> and the home directory; for every path, whether a
  file exists there and what importing it as a module does (\<open>Raises\<close>, or \<open>Returns\<close>
  the fresh module object); what \<^verbatim>\<open>json.load\<close> gives for the configuration file
  (\<open>None\<close>: no such file); whether writing the configuration fails; for every package
  name, the \<^verbatim>\<open>ImportError\<close> message when it is not installed;
  \<^verbatim>\<open>Path(p).exists()\<close>; the three summarisation libraries, each taken as one
  call from its arguments to the text of the completion; and
  \<^verbatim>\<open>json.dumps(data, indent=2)\<close>.
\<close>

record 's env =
  program_dir :: string
  home_dir :: string
  files :: "string \<Rightarrow> 's module outcome option"
  config_file :: "pyval outcome option"
  save_error :: "string option"
  import_error :: "string \<Rightarrow> string option"
  path_exists :: "pyval \<Rightarrow> bool outcome"
  llama :: "pyval \<Rightarrow> string \<Rightarrow> string outcome"
  anthropic_create :: "pyval \<Rightarrow> pyval \<Rightarrow> string \<Rightarrow> string outcome"
  openai_create :: "pyval \<Rightarrow> pyval \<Rightarrow> string \<Rightarrow> string outcome"
  json_dumps :: "pyval \<Rightarrow> string"

text \<open>
  What ends the process early: an exception nobody catches, or \<^verbatim>\<open>sys.exit(n)\<close>.
\<close>

datatype crash = Uncaught string | SystemExit int

abbreviation nl :: char where
  "nl \<equiv> CHR 0x0A"

definition CONFIG_FILE :: "'s env \<Rightarrow> string" where
  "CONFIG_FILE env = home_dir env @ ''/.devassist/config.json''"

definition EXTENSIONS_DIR :: "'s env \<Rightarrow> string" where
  "EXTENSIONS_DIR env = home_dir env @ ''/.devassist/extensions''"

text \<open>
  \<^verbatim>\<open>Path(__file__).parent / "extensions" / f"{name}.py"\<close> and
  \<^verbatim>\<open>EXTENSIONS_DIR / f"{name}.py"\<close>.
\<close>

definition builtin_path :: "'s env \<Rightarrow> string \<Rightarrow> string" where
  "builtin_path env nm = program_dir env @ ''/extensions/'' @ nm @ ''.py''"

definition user_path :: "'s env \<Rightarrow> string \<Rightarrow> string" where
  "user_path env nm = EXTENSIONS_DIR env @ ''/'' @ nm @ ''.py''"

subsection \<open>Loading connectors\<close>

text \<open>
  \<^verbatim>\<open>DevAssist._load_extension_module\<close>: everything happens inside
  \<^verbatim>\<open>try: ... except Exception as e: logger.error(...)\<close>, so the result is always the
  extension, with \<^verbatim>\<open>module\<close> set only when the import and \<^verbatim>\<open>initialize\<close> went
  through, and the log records written. Importing a path with no file raises
  \<^verbatim>\<open>FileNotFoundError\<close>.
\<close>

definition load_error :: "'s Extension \<Rightarrow> string \<Rightarrow> event" where
  "load_error extension e =
     Log ERROR ''Error loading extension {extension.name}: {e}'' [ext_name extension, PStr e]"

definition load_extension_module ::
  "'s env \<Rightarrow> 's Extension \<Rightarrow> string \<Rightarrow> 's Extension \<times> event list" where
  "load_extension_module env extension path =
     (case files env path of
        None \<Rightarrow>
          (extension,
           [load_error extension (''[Errno 2] No such file or directory: '' @ path)])
      | Some (Raises e) \<Rightarrow> (extension, [load_error extension e])
      | Some (Returns m) \<Rightarrow>
          (case initialize_attr m of
             None \<Rightarrow>
               (extension\<lparr>ext_module := Some m\<rparr>,
                [Log INFO ''Loaded extension: {extension.name}'' [ext_name extension]])
           | Some init \<Rightarrow>
               (case init (ext_config extension) (globals m) of
                  Raises e \<Rightarrow> (extension, [load_error extension e])
                | Returns g \<Rightarrow>
                    (extension\<lparr>ext_module := Some (m\<lparr>globals := g\<rparr>)\<rparr>,
                     [Log INFO ''Loaded extension: {extension.name}''
                        [ext_name extension]]))))"

text \<open>
  The body of the loop of \<^verbatim>\<open>DevAssist.load_extensions\<close> for one item
  \<^verbatim>\<open>(name, config)\<close> of the configuration's \<^verbatim>\<open>"extensions"\<close> dictionary.
  \<^verbatim>\<open>{"name": name, **config}\<close> raises \<^verbatim>\<open>TypeError\<close> unless \<^verbatim>\<open>config\<close> is a
  mapping, outside any \<^verbatim>\<open>try\<close>; the keys of \<^verbatim>\<open>config\<close> win over \<^verbatim>\<open>"name"\<close>.
  The merged dictionary is only read with \<^verbatim>\<open>get\<close>.
\<close>

definition load_one ::
  "'s env \<Rightarrow> string \<Rightarrow> pyval \<Rightarrow> 's DevAssist \<Rightarrow> crash + 's DevAssist" where
  "load_one env nm cfg st =
     (case cfg of
        PDict c \<Rightarrow>
          (let ext_cfg = Extension_from_dict (AList.merge [(''name'', PStr nm)] c) in
           if \<not> truthy (ext_enabled ext_cfg) then
             Inr (st\<lparr>trace := trace st @
                    [Log INFO ''Extension {name} is disabled, skipping'' [PStr nm]]\<rparr>)
           else if files env (builtin_path env nm) \<noteq> None then
             (let r = load_extension_module env ext_cfg (builtin_path env nm) in
              Inr (st\<lparr>extensions := AList.update nm (fst r) (extensions st),
                      trace := trace st @ snd r\<rparr>))
           else if files env (user_path env nm) \<noteq> None then
             (let r = load_extension_module env ext_cfg (user_path env nm) in
              Inr (st\<lparr>extensions := AList.update nm (fst r) (extensions st),
                      trace := trace st @ snd r\<rparr>))
           else
             Inr (st\<lparr>trace := trace st @
                    [Log WARNING ''Extension {name} not found'' [PStr nm]]\<rparr>))
      | _ \<Rightarrow> Inl (Uncaught ''TypeError''))"

fun load_loop ::
  "'s env \<Rightarrow> (string \<times> pyval) list \<Rightarrow> 's DevAssist \<Rightarrow> crash + 's DevAssist" where
  "load_loop env [] st = Inr st"
| "load_loop env ((nm, cfg) # rest) st =
     (case load_one env nm cfg st of
        Inl c \<Rightarrow> Inl c
      | Inr st' \<Rightarrow> load_loop env rest st')"

text \<open>
  \<^verbatim>\<open>DevAssist.load_extensions\<close>: \<^verbatim>\<open>self.config.get("extensions", {})\<close> and its
  \<^verbatim>\<open>.items()\<close> raise \<^verbatim>\<open>AttributeError\<close> on a value that is not a dictionary.
\<close>

definition load_extensions :: "'s env \<Rightarrow> 's DevAssist \<Rightarrow> crash + 's DevAssist" where
  "load_extensions env st =
     (case config st of
        PDict c \<Rightarrow>
          (case dict_get c ''extensions'' (PDict []) of
             PDict items \<Rightarrow> load_loop env items st
           | _ \<Rightarrow> Inl (Uncaught ''AttributeError''))
      | _ \<Rightarrow> Inl (Uncaught ''AttributeError''))"

subsection \<open>The prompt\<close>

text \<open>
  The loop of \<^verbatim>\<open>DevAssist._format_prompt\<close>, on the accumulator \<^verbatim>\<open>context_str\<close>:
  \<^verbatim>\<open>
    for source, data in context.items():
        context_str += f"=== {source} ===\n"
        context_str += json.dumps(data, indent=2) + "\n\n"
  \<close>
\<close>

fun format_context :: "(pyval \<Rightarrow> string) \<Rightarrow> dict \<Rightarrow> string \<Rightarrow> string" where
  "format_context dumps [] context_str = context_str"
| "format_context dumps ((source, data) # rest) context_str =
     format_context dumps rest
       ((context_str @ ''=== '' @ source @ '' ==='' @ [nl]) @ dumps data @ [nl, nl])"

text \<open>
  \<^verbatim>\<open>DevAssist._format_prompt(prompt, context=None)\<close>: \<^verbatim>\<open>if not context: return prompt\<close>;
  otherwise \<^verbatim>\<open>f"{context_str}\nTask: {prompt}\n\nResponse:"\<close>. \<^verbatim>\<open>json.dumps\<close> is the
  parameter \<open>dumps\<close>; it returns for every value of type \<open>pyval\<close>.
\<close>

definition format_prompt :: "(pyval \<Rightarrow> string) \<Rightarrow> string \<Rightarrow> dict option \<Rightarrow> string" where
  "format_prompt dumps prompt ctx =
     (case ctx of
        None \<Rightarrow> prompt
      | Some c \<Rightarrow>
          if c = [] then prompt
          else format_context dumps c (''Context:'' @ [nl])
                 @ [nl] @ ''Task: '' @ prompt @ [nl, nl] @ ''Response:'')"

subsection \<open>The backends\<close>

text \<open>
  Each \<^verbatim>\<open>_query_*\<close> method is one \<^verbatim>\<open>try: ... except Exception as e\<close> whose handler
  logs and returns an error text; the result is the returned text and the effects.
\<close>

definition query_local_llama :: "'s env \<Rightarrow> AIConfig \<Rightarrow> string \<Rightarrow> string \<times> event list" where
  "query_local_llama env ac prompt =
     (let failed = (\<lambda>evs e. (''Error querying local model: '' @ e,
                      evs @ [Log ERROR ''Error querying local model: {e}'' [PStr e]]))
      in case import_error env ''llama_cpp'' of
        Some e \<Rightarrow> failed [] e
      | None \<Rightarrow>
          if \<not> truthy (local_model_path ac) then
            (''Error: Local model path not configured or model file not found'', [])
          else
            (case path_exists env (local_model_path ac) of
               Raises e \<Rightarrow> failed [] e
             | Returns found \<Rightarrow>
                 if \<not> found then
                   (''Error: Local model path not configured or model file not found'', [])
                 else
                   (let call = Call ''llama_cpp.Llama'' [local_model_path ac, PStr prompt]
                    in case llama env (local_model_path ac) prompt of
                      Raises e \<Rightarrow> failed [call] e
                    | Returns text \<Rightarrow> (text, [call]))))"

definition query_claude :: "'s env \<Rightarrow> AIConfig \<Rightarrow> string \<Rightarrow> string \<times> event list" where
  "query_claude env ac prompt =
     (let failed = (\<lambda>evs e. (''Error querying Claude API: '' @ e,
                      evs @ [Log ERROR ''Error querying Claude API: {e}'' [PStr e]]))
      in case import_error env ''anthropic'' of
        Some e \<Rightarrow> failed [] e
      | None \<Rightarrow>
          if \<not> truthy (api_key ac) then (''Error: Claude API key not configured'', [])
          else
            (let mdl = (if truthy (model ac) then model ac
                        else PStr ''claude-3-7-sonnet-20250219'');
                 call = Call ''anthropic.messages.create'' [api_key ac, mdl, PStr prompt]
             in case anthropic_create env (api_key ac) mdl prompt of
               Raises e \<Rightarrow> failed [call] e
             | Returns text \<Rightarrow> (text, [call])))"

definition query_openai :: "'s env \<Rightarrow> AIConfig \<Rightarrow> string \<Rightarrow> string \<times> event list" where
  "query_openai env ac prompt =
     (let failed = (\<lambda>evs e. (''Error querying OpenAI API: '' @ e,
                      evs @ [Log ERROR ''Error querying OpenAI API: {e}'' [PStr e]]))
      in case import_error env ''openai'' of
        Some e \<Rightarrow> failed [] e
      | None \<Rightarrow>
          if \<not> truthy (api_key ac) then (''Error: OpenAI API key not configured'', [])
          else
            (let mdl = (if truthy (model ac) then model ac else PStr ''gpt-4'');
                 call = Call ''openai.ChatCompletion.create'' [api_key ac, mdl, PStr prompt]
             in case openai_create env (api_key ac) mdl prompt of
               Raises e \<Rightarrow> failed [call] e
             | Returns text \<Rightarrow> (text, [call])))"

text \<open>
  \<^verbatim>\<open>DevAssist.query_ai(prompt, context=None)\<close>. Reading \<^verbatim>\<open>self.ai_config.provider\<close>
  before \<^verbatim>\<open>load_config\<close> has run raises \<^verbatim>\<open>AttributeError\<close>.
\<close>

definition query_ai ::
  "'s env \<Rightarrow> 's DevAssist \<Rightarrow> string \<Rightarrow> dict option \<Rightarrow> crash + string \<times> 's DevAssist" where
  "query_ai env st prompt ctx =
     (case ai_config st of
        None \<Rightarrow> Inl (Uncaught ''AttributeError'')
      | Some ac \<Rightarrow>
          (let formatted_prompt = format_prompt (json_dumps env) prompt ctx;
               r = (if provider ac = PStr ''local'' then query_local_llama env ac formatted_prompt
                    else if provider ac = PStr ''claude'' then query_claude env ac formatted_prompt
                    else if provider ac = PStr ''openai'' then query_openai env ac formatted_prompt
                    else (''Error: Unable to query AI model'',
                          [Log ERROR ''Unknown AI provider: {provider}'' [provider ac]]))
           in Inr (fst r, st\<lparr>trace := trace st @ snd r\<rparr>)))"

definition summary_prompt :: string where
  "summary_prompt =
     ''You are an AI assistant for developers. Analyze the following data from different developer tools and provide a concise summary focusing on:''
     @ [nl] @ ''1. Important tasks and their priorities''
     @ [nl] @ ''2. Pending code reviews that need attention''
     @ [nl] @ ''3. Messages that require responses''
     @ [nl] @ ''4. Any blocking issues that should be addressed immediately''
     @ [nl, nl] @ ''Please format the output in a clear, readable way with sections for each category.''"

text \<open>
  \<^verbatim>\<open>DevAssist.process_data(data)\<close>: \<^verbatim>\<open>if not data: return "No data collected from
  extensions."\<close>, and only otherwise \<^verbatim>\<open>self.query_ai(prompt, context=data)\<close>.
\<close>

definition process_data ::
  "'s env \<Rightarrow> 's DevAssist \<Rightarrow> dict \<Rightarrow> crash + string \<times> 's DevAssist" where
  "process_data env st data =
     (if data = [] then Inr (''No data collected from extensions.'', st)
      else query_ai env st summary_prompt (Some data))"

subsection \<open>Start-up\<close>

definition create_default_config :: "'s env \<Rightarrow> pyval" where
  "create_default_config env =
     PDict
       [(''ai'', PDict
           [(''provider'', PStr ''local''),
            (''model'', PStr ''llama3''),
            (''local_model_path'', PStr (home_dir env @ ''/.cache/devassist/models/llama3''))]),
        (''extensions'', PDict
           [(''github'', PDict
               [(''enabled'', PBool True),
                (''config'', PDict [(''token'', PStr []), (''repositories'', PList [])])]),
            (''jira'', PDict
               [(''enabled'', PBool True),
                (''config'', PDict [(''url'', PStr []), (''username'', PStr []),
                                    (''api_token'', PStr []), (''projects'', PList [])])]),
            (''slack'', PDict
               [(''enabled'', PBool True),
                (''config'', PDict [(''token'', PStr []), (''channels'', PList [])])])])]"

text \<open>\<^verbatim>\<open>DevAssist.save_config\<close>: the write is inside a \<^verbatim>\<open>try\<close>; only the log differs.\<close>

definition save_config :: "'s env \<Rightarrow> 's DevAssist \<Rightarrow> 's DevAssist" where
  "save_config env st =
     (case save_error env of
        None \<Rightarrow>
          st\<lparr>trace := trace st @
               [Log INFO ''Configuration saved to {CONFIG_FILE}'' [PStr (CONFIG_FILE env)]]\<rparr>
      | Some e \<Rightarrow>
          st\<lparr>trace := trace st @ [Log ERROR ''Error saving configuration: {e}'' [PStr e]]\<rparr>)"

text \<open>
  \<^verbatim>\<open>DevAssist.load_config\<close>. The last statement,
  \<^verbatim>\<open>AIConfig.from_dict(self.config.get("ai", {}))\<close>, is outside the \<^verbatim>\<open>try\<close>: it raises
  \<^verbatim>\<open>AttributeError\<close> when the loaded JSON, or its \<^verbatim>\<open>"ai"\<close> entry, is not a dictionary.
\<close>

definition load_config :: "'s env \<Rightarrow> 's DevAssist \<Rightarrow> crash + 's DevAssist" where
  "load_config env st =
     (let st1 =
        (case config_file env of
           Some (Returns v) \<Rightarrow>
             st\<lparr>config := v,
                trace := trace st @
                  [Log INFO ''Configuration loaded from {CONFIG_FILE}'' [PStr (CONFIG_FILE env)]]\<rparr>
         | Some (Raises e) \<Rightarrow>
             st\<lparr>config := create_default_config env,
                trace := trace st @ [Log ERROR ''Error loading configuration: {e}'' [PStr e]]\<rparr>
         | None \<Rightarrow>
             save_config env
               (st\<lparr>config := create_default_config env,
                   trace := trace st @
                     [Log INFO ''Configuration file not found, creating default'' []]\<rparr>))
      in case config st1 of
        PDict c \<Rightarrow>
          (case dict_get c ''ai'' (PDict []) of
             PDict a \<Rightarrow> Inr (st1\<lparr>ai_config := Some (AIConfig_from_dict a)\<rparr>)
           | _ \<Rightarrow> Inl (Uncaught ''AttributeError''))
      | _ \<Rightarrow> Inl (Uncaught ''AttributeError''))"

text \<open>
  \<^verbatim>\<open>DevAssist.load_ai_provider\<close>: the provider's package must import, and an unknown
  provider or a missing package ends the process with \<^verbatim>\<open>sys.exit(1)\<close>.
\<close>

definition load_ai_provider :: "'s env \<Rightarrow> 's DevAssist \<Rightarrow> crash + 's DevAssist" where
  "load_ai_provider env st =
     (case ai_config st of
        None \<Rightarrow> Inl (Uncaught ''AttributeError'')
      | Some ac \<Rightarrow>
          (let using_package = (\<lambda>package msg.
                  case import_error env package of
                    None \<Rightarrow> Inr (st\<lparr>trace := trace st @ [Log INFO msg []]\<rparr>)
                  | Some e \<Rightarrow> Inl (SystemExit 1))
           in if provider ac = PStr ''local'' then
                using_package ''llama_cpp'' ''Using local Llama model''
              else if provider ac = PStr ''claude'' then
                using_package ''anthropic'' ''Using Claude API''
              else if provider ac = PStr ''openai'' then
                using_package ''openai'' ''Using OpenAI API''
              else Inl (SystemExit 1)))"

text \<open>
  \<^verbatim>\<open>DevAssist.initialize\<close>. Creating the two directories is taken to succeed.
\<close>

definition initialize :: "'s env \<Rightarrow> 's DevAssist \<Rightarrow> crash + 's DevAssist" where
  "initialize env st =
     (if initialized st then Inr st
      else case load_config env st of
        Inl c \<Rightarrow> Inl c
      | Inr st1 \<Rightarrow>
          (case load_ai_provider env st1 of
             Inl c \<Rightarrow> Inl c
           | Inr st2 \<Rightarrow>
               (case load_extensions env st2 of
                  Inl c \<Rightarrow> Inl c
                | Inr st3 \<Rightarrow>
                    Inr (st3\<lparr>initialized := True,
                             trace := trace st3 @ [Log INFO ''DevAssist initialized'' []]\<rparr>))))"

text \<open>\<^verbatim>\<open>DevAssist.__init__\<close>, with nothing done yet.\<close>

definition DevAssist_init :: "'s DevAssist" where
  "DevAssist_init =
     \<lparr> config = PDict [], ai_config = None, extensions = [], initialized = False, trace = [] \<rparr>"

definition banner :: "string \<Rightarrow> event list" where
  "banner summary =
     [Print (nl # replicate 80 (CHR ''='')),
      Print '' DEVELOPER ASSISTANT SUMMARY '',
      Print (replicate 80 (CHR ''='') @ [nl]),
      Print summary,
      Print (nl # replicate 80 (CHR ''=''))]"

text \<open>\<^verbatim>\<open>DevAssist.run\<close>: initialise, collect, summarise, print.\<close>

definition run :: "'s env \<Rightarrow> 's DevAssist \<Rightarrow> crash + 's DevAssist" where
  "run env st =
     (case initialize env st of
        Inl c \<Rightarrow> Inl c
      | Inr st1 \<Rightarrow>
          (let r = collect_data st1
           in case process_data env (snd r) (fst r) of
             Inl c \<Rightarrow> Inl c
           | Inr (summary, st3) \<Rightarrow> Inr (st3\<lparr>trace := trace st3 @ banner summary\<rparr>)))"

section \<open>The GitHub connector\<close>





section \<open>Notions used in the statements\<close>

text \<open>
  What one extension adds to \<^verbatim>\<open>data\<close> in \<^verbatim>\<open>collect_data\<close>, if anything: the value
  its \<^verbatim>\<open>collect_data()\<close> returned, when the extension is enabled, has a module with
  that attribute, the call did not raise and the value is truthy.
\<close>

definition contribution :: "'s Extension \<Rightarrow> pyval option" where
  "contribution ext =
     (if truthy (ext_enabled ext) then
        (case ext_module ext of
           None \<Rightarrow> None
         | Some m \<Rightarrow>
             (case collect_data_attr m of
                None \<Rightarrow> None
              | Some f \<Rightarrow>
                  (case f (globals m) of
                     Raises e \<Rightarrow> None
                   | Returns v \<Rightarrow> if truthy v then Some v else None)))
      else None)"


fun is_call :: "event \<Rightarrow> bool" where
  "is_call (Call c args) = True"
| "is_call ev = False"

text \<open>
  The extension \<^verbatim>\<open>load_extensions\<close> builds for the item \<^verbatim>\<open>(name, config)\<close>, and the
  file it then picks: the built-in path when a file exists there, else the user path
  when a file exists there.
\<close>

definition spec_of :: "string \<Rightarrow> dict \<Rightarrow> 's Extension" where
  "spec_of nm c = Extension_from_dict (AList.merge [(''name'', PStr nm)] c)"

definition located :: "'s env \<Rightarrow> string \<Rightarrow> string option" where
  "located env nm =
     (if files env (builtin_path env nm) \<noteq> None then Some (builtin_path env nm)
      else if files env (user_path env nm) \<noteq> None then Some (user_path env nm)
      else None)"

fun is_dict :: "pyval \<Rightarrow> bool" where
  "is_dict (PDict d) = True"
| "is_dict v = False"

definition not_found :: "string \<Rightarrow> event" where
  "not_found nm = Log WARNING ''Extension {name} not found'' [PStr nm]"



section \<open>Example inputs\<close>

text \<open>
  A module with no \<^verbatim>\<open>initialize\<close> whose \<^verbatim>\<open>collect_data()\<close> has the given outcome, and
  an enabled extension that holds a loaded module.
\<close>

definition const_module :: "pyval outcome \<Rightarrow> unit module" where
  "const_module r =
     \<lparr> globals = (), initialize_attr = None, collect_data_attr = Some (\<lambda>g. r) \<rparr>"

definition loaded_extension :: "string \<Rightarrow> 's module \<Rightarrow> 's Extension" where
  "loaded_extension nm m =
     \<lparr> ext_name = PStr nm, ext_enabled = PBool True, ext_config = PDict [],
       ext_module = Some m \<rparr>"

text \<open>
  Two loaded connectors: \<^verbatim>\<open>github\<close> returns one issue list, \<^verbatim>\<open>notes\<close> returns
  \<^verbatim>\<open>{}\<close>.
\<close>

definition app_empty_result :: "unit DevAssist" where
  "app_empty_result =
     DevAssist_init\<lparr>extensions :=
       [(''github'', loaded_extension ''github''
                       (const_module (Returns (PDict [(''issues'', PList [])])))),
        (''notes'', loaded_extension ''notes'' (const_module (Returns (PDict []))))]\<rparr>"



text \<open>
  A machine with connector files: \<^verbatim>\<open>notes\<close> exists both built in and in the user's
  extension directory, \<^verbatim>\<open>wiki\<close> only in the user's directory, the built-in
  \<^verbatim>\<open>broken\<close> fails to import, the built-in \<^verbatim>\<open>stuck\<close> imports but its
  \<^verbatim>\<open>initialize\<close> raises, and \<^verbatim>\<open>off\<close> and \<^verbatim>\<open>tracker\<close> are built in. There is no
  file for \<^verbatim>\<open>ghost\<close>.
\<close>

definition env_plugins :: "unit env" where
  "env_plugins =
     \<lparr> program_dir = ''/opt/nau'',
       home_dir = ''/home/dev'',
       files = (\<lambda>p.
          if p = ''/opt/nau/extensions/notes.py''
            then Some (Returns (const_module (Returns (PStr ''built-in notes''))))
          else if p = ''/home/dev/.devassist/extensions/notes.py''
            then Some (Returns (const_module (Returns (PStr ''user notes''))))
          else if p = ''/home/dev/.devassist/extensions/wiki.py''
            then Some (Returns (const_module (Returns (PStr ''user wiki''))))
          else if p = ''/opt/nau/extensions/broken.py''
            then Some (Raises ''invalid syntax'')
          else if p = ''/opt/nau/extensions/stuck.py''
            then Some (Returns
                   \<lparr> globals = (), initialize_attr = Some (\<lambda>cfg g. Raises ''no token''),
                     collect_data_attr = Some (\<lambda>g. Returns (PStr ''stuck'')) \<rparr>)
          else if p = ''/opt/nau/extensions/off.py''
            then Some (Returns (const_module (Returns (PStr ''off''))))
          else if p = ''/opt/nau/extensions/tracker.py''
            then Some (Returns (const_module (Returns (PStr ''tracker''))))
          else None),
       config_file = None,
       save_error = None,
       import_error = (\<lambda>p. None),
       path_exists = (\<lambda>p. Returns False),
       llama = (\<lambda>p q. Raises ''no model''),
       anthropic_create = (\<lambda>k m q. Raises ''offline''),
       openai_create = (\<lambda>k m q. Raises ''offline''),
       json_dumps = (\<lambda>v. ''{}'') \<rparr>"

text \<open>
  The \<^verbatim>\<open>"extensions"\<close> part of a configuration naming these connectors: \<^verbatim>\<open>off\<close> is
  disabled, \<^verbatim>\<open>wiki\<close> leaves everything to the defaults, and the entry of
  \<^verbatim>\<open>tracker\<close> carries a \<^verbatim>\<open>"name"\<close> key of its own.
\<close>

definition plugin_items :: dict where
  "plugin_items =
     [(''notes'', PDict [(''enabled'', PBool True),
                         (''config'', PDict [(''dir'', PStr ''/srv/notes'')])]),
      (''wiki'', PDict []),
      (''broken'', PDict [(''enabled'', PBool True)]),
      (''stuck'', PDict [(''enabled'', PBool True)]),
      (''ghost'', PDict [(''enabled'', PBool True)]),
      (''off'', PDict [(''enabled'', PBool False)]),
      (''tracker'', PDict [(''name'', PStr ''jira''), (''enabled'', PBool True)])]"

text \<open>
  An application object with that configuration, in which \<^verbatim>\<open>notes\<close> is already
  registered from an earlier load.
\<close>

definition app_configured :: "unit DevAssist" where
  "app_configured =
     DevAssist_init
       \<lparr> config := PDict [(''ai'', PDict []), (''extensions'', PDict plugin_items)],
         extensions := [(''notes'', loaded_extension ''notes'' (const_module (Raises ''old'')))] \<rparr>"

text \<open>
  A machine where every backend works and the built-in connector \<^verbatim>\<open>notes\<close> is the only
  connector file, given by what its \<^verbatim>\<open>collect_data()\<close> does and by the content of the
  configuration file; and a configuration naming the provider, the API key and whether
  \<^verbatim>\<open>notes\<close> is enabled.
\<close>

definition example_config :: "string \<Rightarrow> pyval \<Rightarrow> bool \<Rightarrow> pyval" where
  "example_config prov key on =
     PDict [(''ai'', PDict [(''provider'', PStr prov), (''model'', PStr ''m1''),
                           (''api_key'', key)]),
            (''extensions'', PDict [(''notes'', PDict [(''enabled'', PBool on)])])]"

definition example_env :: "pyval outcome \<Rightarrow> pyval \<Rightarrow> unit env" where
  "example_env collected cfg =
     \<lparr> program_dir = ''/opt/nau'',
       home_dir = ''/home/dev'',
       files = (\<lambda>p. if p = ''/opt/nau/extensions/notes.py''
                     then Some (Returns (const_module collected))
                     else None),
       config_file = Some (Returns cfg),
       save_error = None,
       import_error = (\<lambda>p. None),
       path_exists = (\<lambda>p. Returns True),
       llama = (\<lambda>p q. Returns ''local summary''),
       anthropic_create = (\<lambda>k m q. Returns ''claude summary''),
       openai_create = (\<lambda>k m q. Returns ''openai summary''),
       json_dumps = (\<lambda>v. ''{}'') \<rparr>"


section \<open>Properties\<close>

subsection \<open>Prompt formatting\<close>

lemma format_context_closed:
  "format_context dumps c acc =
     acc @ concat (map (\<lambda>(source, data).
                     ''=== '' @ source @ '' ==='' @ [nl] @ dumps data @ [nl, nl]) c)"
  by (induction c arbitrary: acc) auto

text \<open>
  C10. With no context (\<^verbatim>\<open>None\<close>) or an empty one, \<^verbatim>\<open>_format_prompt\<close> returns the
  prompt unchanged. With a non-empty context the result is \<^verbatim>\<open>"Context:\n"\<close>, then
  for every key of the context, in order, one section \<^verbatim>\<open>"=== key ===\n"\<close> followed by
  the JSON text of its value and a blank line, then \<^verbatim>\<open>"\nTask: "\<close>, the prompt and
  \<^verbatim>\<open>"\n\nResponse:"\<close>.
\<close>

theorem format_prompt_identity_or_sections:
  "format_prompt dumps prompt None = prompt
   \<and> format_prompt dumps prompt (Some []) = prompt
   \<and> (c \<noteq> [] \<longrightarrow>
        format_prompt dumps prompt (Some c) =
          ''Context:'' @ [nl]
          @ concat (map (\<lambda>(source, data).
                      ''=== '' @ source @ '' ==='' @ [nl] @ dumps data @ [nl, nl]) c)
          @ [nl] @ ''Task: '' @ prompt @ [nl, nl] @ ''Response:'')"
  by (simp add: format_prompt_def format_context_closed)

theorem format_prompt_identity_or_sections_witness:
  "[(''github'', PDict []), (''jira'', PList [])] \<noteq> []
   \<and> format_prompt (\<lambda>v. ''{}'') ''Summarise'' None = ''Summarise''
   \<and> format_prompt (\<lambda>v. ''{}'') ''Summarise'' (Some []) = ''Summarise''
   \<and> format_prompt (\<lambda>v. ''{}'') ''Summarise''
        (Some [(''github'', PDict []), (''jira'', PList [])]) =
       ''Context:'' @ [nl] @ ''=== github ==='' @ [nl] @ ''{}'' @ [nl, nl]
        @ ''=== jira ==='' @ [nl] @ ''{}'' @ [nl, nl]
        @ [nl] @ ''Task: Summarise'' @ [nl, nl] @ ''Response:''"
  using format_prompt_identity_or_sections
          [of "\<lambda>v. ''{}''" "''Summarise''" "[(''github'', PDict []), (''jira'', PList [])]"]
  by simp

subsection \<open>Aggregation\<close>

lemma contribution_Some_iff:
  "contribution ext = Some v \<longleftrightarrow>
     (truthy (ext_enabled ext) \<and>
      (\<exists>m f. ext_module ext = Some m \<and> collect_data_attr m = Some f \<and>
             f (globals m) = Returns v \<and> truthy v))"
  by (auto simp: contribution_def split: option.splits outcome.splits)

lemma fst_collect_step:
  "fst (collect_step nm ext acc) =
     (case contribution ext of None \<Rightarrow> fst acc | Some v \<Rightarrow> AList.update nm v (fst acc))"
  by (auto simp: collect_step_def contribution_def split: option.splits outcome.splits)

lemma keys_collect_loop:
  "fst ` set (fst (collect_loop exts acc)) =
     fst ` set (fst acc) \<union> {k. \<exists>ext v. (k, ext) \<in> set exts \<and> contribution ext = Some v}"
proof (induction exts arbitrary: acc)
  case Nil
  show ?case by simp
next
  case (Cons p exts)
  obtain nm ext where p: "p = (nm, ext)" by (cases p)
  show ?case
  proof (cases "contribution ext")
    case None
    then show ?thesis
      using Cons.IH [of "collect_step nm ext acc"] by (auto simp: p fst_collect_step)
  next
    case (Some v)
    then show ?thesis
      using Cons.IH [of "collect_step nm ext acc"]
      by (auto simp: p fst_collect_step dom_update)
  qed
qed





lemma calls_collect_loop:
  "filter is_call (snd (collect_loop exts acc)) = filter is_call (snd acc)"
proof (induction exts arbitrary: acc)
  case Nil
  show ?case by simp
next
  case (Cons p exts)
  obtain nm ext where p: "p = (nm, ext)" by (cases p)
  have "filter is_call (snd (collect_step nm ext acc)) = filter is_call (snd acc)"
    by (auto simp: collect_step_def split: option.splits outcome.splits)
  then show ?case using Cons.IH [of "collect_step nm ext acc"] by (simp add: p)
qed

text \<open>
  C1, as amended. A name is a key of the dictionary \<^verbatim>\<open>collect_data\<close> returns exactly
  when \<^verbatim>\<open>self.extensions\<close> holds, under that name, an extension that is enabled, has a
  loaded module with a \<^verbatim>\<open>collect_data\<close> attribute, and whose call returned, without
  raising, a value that is truthy. A returned value that is empty (\<^verbatim>\<open>{}\<close>, \<^verbatim>\<open>[]\<close>,
  \<^verbatim>\<open>None\<close>) gives no key; any non-empty value gives one, an error marker such as
  \<^verbatim>\<open>{"error": ...}\<close> included.
\<close>

theorem collect_data_keys:
  "k \<in> fst ` set (fst (collect_data st)) \<longleftrightarrow>
     (\<exists>ext m f v. (k, ext) \<in> set (extensions st) \<and> truthy (ext_enabled ext) \<and>
        ext_module ext = Some m \<and> collect_data_attr m = Some f \<and>
        f (globals m) = Returns v \<and> truthy v)"
  unfolding collect_data_def Let_def fst_conv keys_collect_loop contribution_Some_iff
  by auto

theorem collect_data_keys_witness:
  "''github'' \<in> fst ` set (fst (collect_data app_empty_result))"
proof -
  have "(''github'', loaded_extension ''github''
                       (const_module (Returns (PDict [(''issues'', PList [])]))))
          \<in> set (extensions app_empty_result)"
    by (simp add: app_empty_result_def DevAssist_init_def)
  moreover have "truthy (ext_enabled (loaded_extension ''github''
                       (const_module (Returns (PDict [(''issues'', PList [])])))))"
    by (simp add: loaded_extension_def)
  moreover have "ext_module (loaded_extension ''github''
                       (const_module (Returns (PDict [(''issues'', PList [])]))))
                 = Some (const_module (Returns (PDict [(''issues'', PList [])])))"
    by (simp add: loaded_extension_def)
  moreover have "collect_data_attr (const_module (Returns (PDict [(''issues'', PList [])])))
                 = Some (\<lambda>g. Returns (PDict [(''issues'', PList [])]))"
    by (simp add: const_module_def)
  moreover have "truthy (PDict [(''issues'', PList [])])" by simp
  ultimately show ?thesis
    using collect_data_keys [of "''github''" app_empty_result] by blast
qed

text \<open>
  C1 as stated fails: \<^verbatim>\<open>notes\<close> is enabled, its module is loaded and its
  \<^verbatim>\<open>collect_data()\<close> returns \<^verbatim>\<open>{}\<close> without raising, next to \<^verbatim>\<open>github\<close> whose
  collection succeeds with data; the result has the key \<^verbatim>\<open>github\<close> only.
\<close>

theorem empty_result_omitted:
  "map_of (extensions app_empty_result) ''notes''
     = Some (loaded_extension ''notes'' (const_module (Returns (PDict []))))
   \<and> truthy (ext_enabled (loaded_extension ''notes'' (const_module (Returns (PDict [])))))
   \<and> ext_module (loaded_extension ''notes'' (const_module (Returns (PDict []))))
       = Some (const_module (Returns (PDict [])))
   \<and> map_option (\<lambda>f. f (globals (const_module (Returns (PDict [])))))
        (collect_data_attr (const_module (Returns (PDict [])))) = Some (Returns (PDict []))
   \<and> fst (collect_data app_empty_result) = [(''github'', PDict [(''issues'', PList [])])]
   \<and> ''notes'' \<notin> fst ` set (fst (collect_data app_empty_result))"
  by (simp add: app_empty_result_def DevAssist_init_def loaded_extension_def const_module_def
        collect_data_def collect_step_def Let_def)





subsection \<open>Loading\<close>

lemma spec_of_fields:
  "ext_enabled (spec_of n e :: 's Extension) = dict_get e ''enabled'' (PBool True)"
  "ext_config (spec_of n e :: 's Extension) = dict_get e ''config'' (PDict [])"
  "ext_name (spec_of n e :: 's Extension) = dict_get e ''name'' (PStr n)"
  "ext_module (spec_of n e :: 's Extension) = None"
  by (simp_all add: spec_of_def Extension_from_dict_def dict_get_def merge_conv' map_add_def
        split: option.splits)

lemma load_one_dict:
  "load_one env nm (PDict c) st =
     Inr (if \<not> truthy (ext_enabled (spec_of nm c :: 's Extension)) then
            st\<lparr>trace := trace st @
                 [Log INFO ''Extension {name} is disabled, skipping'' [PStr nm]]\<rparr>
          else case located env nm of
            Some p \<Rightarrow>
              st\<lparr>extensions :=
                   AList.update nm (fst (load_extension_module env (spec_of nm c) p))
                     (extensions st),
                 trace := trace st @ snd (load_extension_module env (spec_of nm c) p)\<rparr>
          | None \<Rightarrow> st\<lparr>trace := trace st @ [not_found nm]\<rparr>)"
  for st :: "'s DevAssist"
  by (simp add: load_one_def located_def spec_of_def not_found_def Let_def)

lemma load_one_Inr_dict:
  "load_one env nm cfg st = Inr st' \<Longrightarrow> \<exists>c. cfg = PDict c"
  by (cases cfg) (simp_all add: load_one_def)

lemma load_module_events:
  "filter is_call (snd (load_extension_module env x p)) = []"
  "not_found n \<notin> set (snd (load_extension_module env x p))"
  by (auto simp: load_extension_module_def load_error_def not_found_def
        split: option.splits outcome.splits)

lemma not_found_simps:
  "not_found n = not_found nm \<longleftrightarrow> n = nm"
  "not_found n \<noteq> Log INFO t args"
  "\<not> is_call (not_found n)"
  by (simp_all add: not_found_def)


lemma load_one_frame:
  assumes "load_one env nm cfg st = Inr st'"
  shows "config st' = config st" "ai_config st' = ai_config st"
    "initialized st' = initialized st"
    "nm \<noteq> n \<Longrightarrow> map_of (extensions st') n = map_of (extensions st) n"
    "\<exists>evs. trace st' = trace st @ evs \<and> filter is_call evs = []
           \<and> (nm \<noteq> n \<longrightarrow> not_found n \<notin> set evs)"
proof -
  obtain c where c: "cfg = PDict c" using load_one_Inr_dict [OF assms] by blast
  note a = assms [unfolded c load_one_dict]
  show "config st' = config st" "ai_config st' = ai_config st"
    "initialized st' = initialized st"
    using a by (auto split: if_splits option.splits)
  show "nm \<noteq> n \<Longrightarrow> map_of (extensions st') n = map_of (extensions st) n"
    using a by (auto simp: update_conv' split: if_splits option.splits)
  show "\<exists>evs. trace st' = trace st @ evs \<and> filter is_call evs = []
           \<and> (nm \<noteq> n \<longrightarrow> not_found n \<notin> set evs)"
    using a by (auto simp: load_module_events not_found_simps split: if_splits option.splits)
qed

lemma load_loop_frame:
  assumes "load_loop env items st = Inr st'"
  shows "config st' = config st \<and> ai_config st' = ai_config st
       \<and> initialized st' = initialized st
       \<and> (n \<notin> fst ` set items \<longrightarrow> map_of (extensions st') n = map_of (extensions st) n)
       \<and> (\<exists>evs. trace st' = trace st @ evs \<and> filter is_call evs = []
             \<and> (n \<notin> fst ` set items \<longrightarrow> not_found n \<notin> set evs))"
  using assms
proof (induction items arbitrary: st)
  case Nil
  then show ?case by simp
next
  case (Cons p items)
  obtain nm cfg where p: "p = (nm, cfg)" by (cases p)
  from Cons.prems obtain s where s: "load_one env nm cfg st = Inr s"
    and r: "load_loop env items s = Inr st'"
    by (auto simp: p split: sum.splits)
  note f = load_one_frame [OF s]
  from f(5) [of n] obtain e1 where e1: "trace s = trace st @ e1" "filter is_call e1 = []"
    "nm \<noteq> n \<longrightarrow> not_found n \<notin> set e1" by blast
  from Cons.IH [OF r] obtain e2 where ih: "config st' = config s" "ai_config st' = ai_config s"
    "initialized st' = initialized s"
    "n \<notin> fst ` set items \<longrightarrow> map_of (extensions st') n = map_of (extensions s) n"
    "trace st' = trace s @ e2" "filter is_call e2 = []"
    "n \<notin> fst ` set items \<longrightarrow> not_found n \<notin> set e2" by blast
  have "trace st' = trace st @ (e1 @ e2) \<and> filter is_call (e1 @ e2) = []
        \<and> (n \<notin> fst ` set (p # items) \<longrightarrow> not_found n \<notin> set (e1 @ e2))"
    using e1 ih by (auto simp: p)
  then have "\<exists>evs. trace st' = trace st @ evs \<and> filter is_call evs = []
             \<and> (n \<notin> fst ` set (p # items) \<longrightarrow> not_found n \<notin> set evs)" by blast
  moreover have "n \<notin> fst ` set (p # items) \<longrightarrow> map_of (extensions st') n = map_of (extensions st) n"
    using ih(4) f(4) [of n] by (auto simp: p)
  ultimately show ?case using ih(1-3) f(1-3) by simp
qed

lemma load_loop_append:
  "load_loop env (xs @ ys) st =
     (case load_loop env xs st of Inl c \<Rightarrow> Inl c | Inr s \<Rightarrow> load_loop env ys s)"
proof (induction xs arbitrary: st)
  case Nil
  show ?case by simp
next
  case (Cons p xs)
  obtain nm cfg where p: "p = (nm, cfg)" by (cases p)
  show ?case using Cons.IH by (simp add: p split: sum.splits)
qed

lemma load_loop_total:
  "\<forall>v \<in> snd ` set items. is_dict v \<Longrightarrow> \<exists>st'. load_loop env items st = Inr st'"
proof (induction items arbitrary: st)
  case Nil
  show ?case by simp
next
  case (Cons p items)
  obtain nm cfg where p: "p = (nm, cfg)" by (cases p)
  from Cons.prems obtain c where c: "cfg = PDict c" by (cases cfg) (auto simp: p)
  obtain s where s: "load_one env nm cfg st = Inr s" unfolding c load_one_dict by blast
  show ?case using Cons.IH [of s] Cons.prems by (simp add: p s)
qed

text \<open>The state just before and just after the item of \<open>n\<close> is handled.\<close>

lemma load_loop_entry:
  assumes d: "distinct (map fst items)" and m: "(n, v) \<in> set items"
    and l: "load_loop env items st = Inr st'"
  shows "\<exists>s1 s2 a b. load_one env n v s1 = Inr s2
       \<and> map_of (extensions s1) n = map_of (extensions st) n
       \<and> map_of (extensions st') n = map_of (extensions s2) n
       \<and> trace s1 = trace st @ a \<and> trace st' = trace s2 @ b
       \<and> not_found n \<notin> set a \<and> not_found n \<notin> set b"
proof -
  from m obtain xs ys where items: "items = xs @ (n, v) # ys"
    by (meson split_list)
  from d have nx: "n \<notin> fst ` set xs" and ny: "n \<notin> fst ` set ys"
    by (auto simp: items)
  from l obtain s1 where s1: "load_loop env xs st = Inr s1"
    and r: "load_loop env ((n, v) # ys) s1 = Inr st'"
    by (auto simp: items load_loop_append split: sum.splits)
  from r obtain s2 where s2: "load_one env n v s1 = Inr s2"
    and r2: "load_loop env ys s2 = Inr st'"
    by (auto split: sum.splits)
  from load_loop_frame [OF s1, of n] nx obtain a where
    a: "map_of (extensions s1) n = map_of (extensions st) n" "trace s1 = trace st @ a"
       "not_found n \<notin> set a" by blast
  from load_loop_frame [OF r2, of n] ny obtain b where
    b: "map_of (extensions st') n = map_of (extensions s2) n" "trace st' = trace s2 @ b"
       "not_found n \<notin> set b" by blast
  show ?thesis using s2 a b by blast
qed

lemma load_extensions_loop:
  "config st = PDict c \<Longrightarrow> dict_get c ''extensions'' (PDict []) = PDict items \<Longrightarrow>
     load_extensions env st = load_loop env items st"
  by (simp add: load_extensions_def)

lemma load_extensions_entry:
  assumes cfg: "config st = PDict c"
    and items: "dict_get c ''extensions'' (PDict []) = PDict items"
    and d: "distinct (map fst items)"
    and m: "(n, PDict e) \<in> set items"
    and l: "load_extensions env st = Inr st'"
  shows "if \<not> truthy (dict_get e ''enabled'' (PBool True)) then
           map_of (extensions st') n = map_of (extensions st) n
         else case located env n of
           Some p \<Rightarrow>
             map_of (extensions st') n = Some (fst (load_extension_module env (spec_of n e) p))
             \<and> set (snd (load_extension_module env (spec_of n e) p)) \<subseteq> set (trace st')
         | None \<Rightarrow>
             map_of (extensions st') n = map_of (extensions st) n
             \<and> length (filter ((=) (not_found n)) (trace st'))
                 = Suc (length (filter ((=) (not_found n)) (trace st)))"
proof -
  from l have "load_loop env items st = Inr st'"
    by (simp add: load_extensions_loop [OF cfg items])
  from load_loop_entry [OF d m this] obtain s1 s2 a b where
    one: "load_one env n (PDict e) s1 = Inr s2"
    and x1: "map_of (extensions s1) n = map_of (extensions st) n"
    and x2: "map_of (extensions st') n = map_of (extensions s2) n"
    and t1: "trace s1 = trace st @ a" and t2: "trace st' = trace s2 @ b"
    and na: "not_found n \<notin> set a" and nb: "not_found n \<notin> set b"
    by blast
  have fa: "filter ((=) (not_found n)) a = []" and fb: "filter ((=) (not_found n)) b = []"
    using na nb by (auto simp: filter_empty_conv)
  show ?thesis
    using one x1 x2 t1 t2 fa fb
    by (auto simp: load_one_dict spec_of_fields update_conv' split: option.splits)
qed


lemma collect_keys_subset:
  "k \<in> fst ` set (fst (collect_data st)) \<Longrightarrow> k \<in> fst ` set (extensions st)"
proof -
  assume "k \<in> fst ` set (fst (collect_data st))"
  then obtain ext where "(k, ext) \<in> set (extensions st)"
    by (auto simp: collect_data_def Let_def keys_collect_loop)
  then show ?thesis by force
qed

text \<open>
  C5. A connector whose configured \<^verbatim>\<open>enabled\<close> is false (or any falsy value) and that
  was not registered before \<^verbatim>\<open>load_extensions\<close> ran is not a key of
  \<^verbatim>\<open>self.extensions\<close> afterwards and is not a key of what \<^verbatim>\<open>collect_data\<close> returns,
  whatever files exist.
\<close>

theorem disabled_never_active:
  assumes cfg: "config st = PDict c"
    and items: "dict_get c ''extensions'' (PDict []) = PDict items"
    and d: "distinct (map fst items)"
    and m: "(n, PDict e) \<in> set items"
    and off: "\<not> truthy (dict_get e ''enabled'' (PBool True))"
    and fresh: "n \<notin> fst ` set (extensions st)"
    and l: "load_extensions env st = Inr st'"
  shows "n \<notin> fst ` set (extensions st') \<and> n \<notin> fst ` set (fst (collect_data st'))"
proof -
  have "map_of (extensions st') n = map_of (extensions st) n"
    using load_extensions_entry [OF cfg items d m l] off by simp
  then have a: "n \<notin> fst ` set (extensions st')"
    using fresh by (metis map_of_eq_None_iff)
  then have "n \<notin> fst ` set (fst (collect_data st'))"
    using collect_keys_subset by blast
  with a show ?thesis by simp
qed





lemma plugins_cfg:
  "config app_configured = PDict [(''ai'', PDict []), (''extensions'', PDict plugin_items)]"
  by (simp add: app_configured_def DevAssist_init_def)

lemma plugins_items:
  "dict_get [(''ai'', PDict []), (''extensions'', PDict plugin_items)] ''extensions'' (PDict [])
     = PDict plugin_items"
  by (simp add: dict_get_def)

lemma plugins_distinct: "distinct (map fst plugin_items)"
  by (simp add: plugin_items_def)

lemma plugins_dicts: "\<forall>v \<in> snd ` set plugin_items. is_dict v"
  by (simp add: plugin_items_def)

lemma plugins_load: "\<exists>st'. load_extensions env_plugins app_configured = Inr st'"
  using load_loop_total [OF plugins_dicts]
  by (simp add: load_extensions_loop [OF plugins_cfg plugins_items])

lemmas plugin_eval =
  env_plugins_def builtin_path_def user_path_def EXTENSIONS_DIR_def located_def
  load_extension_module_def load_error_def const_module_def contribution_def
  spec_of_def Extension_from_dict_def dict_get_def AList.merge_def


theorem disabled_never_active_witness:
  "\<exists>st'. load_extensions env_plugins app_configured = Inr st'
     \<and> files env_plugins (builtin_path env_plugins ''off'') \<noteq> None
     \<and> ''off'' \<notin> fst ` set (extensions st')
     \<and> ''off'' \<notin> fst ` set (fst (collect_data st'))"
proof -
  obtain st' where l: "load_extensions env_plugins app_configured = Inr st'"
    using plugins_load by blast
  have f: "files env_plugins (builtin_path env_plugins ''off'') \<noteq> None"
    by (simp add: plugin_eval)
  have "''off'' \<notin> fst ` set (extensions st')
     \<and> ''off'' \<notin> fst ` set (fst (collect_data st'))"
    using disabled_never_active [OF plugins_cfg plugins_items plugins_distinct _ _ _ l,
            of "''off''" "[(''enabled'', PBool False)]"]
    by (simp add: plugin_items_def dict_get_def app_configured_def DevAssist_init_def)
  with l f show ?thesis by blast
qed




subsection \<open>Backends and the driver\<close>






lemma load_config_facts:
  assumes "load_config env st = Inr s"
  shows "filter is_call (trace s) = filter is_call (trace st)"
    and "\<exists>ac. ai_config s = Some ac"
  using assms
  by (auto simp: load_config_def save_config_def Let_def
        split: option.splits outcome.splits pyval.splits)

lemma load_ai_provider_facts:
  assumes "load_ai_provider env s = Inr s2"
  shows "ai_config s2 = ai_config s"
    and "filter is_call (trace s2) = filter is_call (trace s)"
    and "\<exists>ac. ai_config s = Some ac \<and>
           (provider ac = PStr ''local'' \<and> import_error env ''llama_cpp'' = None
            \<or> provider ac = PStr ''claude'' \<and> import_error env ''anthropic'' = None
            \<or> provider ac = PStr ''openai'' \<and> import_error env ''openai'' = None)"
  using assms
  by (auto simp: load_ai_provider_def Let_def split: option.splits if_splits)

lemma load_extensions_frame:
  assumes "load_extensions env st = Inr st'"
  shows "ai_config st' = ai_config st"
    and "filter is_call (trace st') = filter is_call (trace st)"
proof -
  from assms obtain items where l: "load_loop env items st = Inr st'"
    by (auto simp: load_extensions_def split: pyval.splits)
  from load_loop_frame [OF l, of undefined] obtain evs where
    "ai_config st' = ai_config st" "trace st' = trace st @ evs" "filter is_call evs = []"
    by blast
  then show "ai_config st' = ai_config st"
    and "filter is_call (trace st') = filter is_call (trace st)"
    by simp_all
qed

lemma initialize_facts:
  assumes "initialize env st = Inr st1"
  shows "filter is_call (trace st1) = filter is_call (trace st)"
    and "\<not> initialized st \<Longrightarrow>
           \<exists>ac. ai_config st1 = Some ac \<and>
             (provider ac = PStr ''local'' \<and> import_error env ''llama_cpp'' = None
              \<or> provider ac = PStr ''claude'' \<and> import_error env ''anthropic'' = None
              \<or> provider ac = PStr ''openai'' \<and> import_error env ''openai'' = None)"
proof -
  show "filter is_call (trace st1) = filter is_call (trace st)"
  proof (cases "initialized st")
    case True
    then show ?thesis using assms by (simp add: initialize_def)
  next
    case False
    with assms obtain s1 s2 s3 where a: "load_config env st = Inr s1"
      and b: "load_ai_provider env s1 = Inr s2" and c: "load_extensions env s2 = Inr s3"
      and d: "st1 = s3\<lparr>initialized := True,
                       trace := trace s3 @ [Log INFO ''DevAssist initialized'' []]\<rparr>"
      by (auto simp: initialize_def split: sum.splits)
    show ?thesis
      using load_config_facts(1) [OF a] load_ai_provider_facts(2) [OF b]
        load_extensions_frame(2) [OF c] by (simp add: d)
  qed
  assume "\<not> initialized st"
  with assms obtain s1 s2 s3 where a: "load_config env st = Inr s1"
    and b: "load_ai_provider env s1 = Inr s2" and c: "load_extensions env s2 = Inr s3"
    and d: "st1 = s3\<lparr>initialized := True,
                     trace := trace s3 @ [Log INFO ''DevAssist initialized'' []]\<rparr>"
    by (auto simp: initialize_def split: sum.splits)
  have "ai_config st1 = ai_config s1"
    using load_ai_provider_facts(1) [OF b] load_extensions_frame(1) [OF c] by (simp add: d)
  then show "\<exists>ac. ai_config st1 = Some ac \<and>
             (provider ac = PStr ''local'' \<and> import_error env ''llama_cpp'' = None
              \<or> provider ac = PStr ''claude'' \<and> import_error env ''anthropic'' = None
              \<or> provider ac = PStr ''openai'' \<and> import_error env ''openai'' = None)"
    using load_ai_provider_facts(3) [OF b] by simp
qed

lemma collect_data_frame:
  "ai_config (snd (collect_data st)) = ai_config st"
  "filter is_call (trace (snd (collect_data st))) = filter is_call (trace st)"
  by (simp_all add: collect_data_def Let_def calls_collect_loop)

lemma banner_calls: "filter is_call (banner s) = []"
  by (simp add: banner_def)

lemma collect_nothing:
  assumes "\<forall>(n, ext) \<in> set exts. contribution ext = None"
  shows "fst (collect_loop exts acc) = fst acc"
  using assms
proof (induction exts arbitrary: acc)
  case Nil
  show ?case by simp
next
  case (Cons p exts)
  obtain nm ext where p: "p = (nm, ext)" by (cases p)
  from Cons.prems have "contribution ext = None" by (simp add: p)
  then have "fst (collect_step nm ext acc) = fst acc" by (simp add: fst_collect_step)
  then show ?case using Cons.IH [of "collect_step nm ext acc"] Cons.prems by (simp add: p)
qed

text \<open>
  C2, as amended. When no registered connector contributes (each one is disabled, or
  has no loaded module, or its \<^verbatim>\<open>collect_data()\<close> raises), the result of
  \<^verbatim>\<open>collect_data\<close> is empty, and \<^verbatim>\<open>run\<close> prints
  \<^verbatim>\<open>No data collected from extensions.\<close> in place of a summary without calling any
  backend: the run adds no library call to the trace.
\<close>

theorem no_data_no_backend_call:
  assumes init: "initialize env st = Inr st1"
    and none: "\<forall>(n, ext) \<in> set (extensions st1).
                 \<not> truthy (ext_enabled ext) \<or> ext_module ext = None
                 \<or> (\<exists>m f e. ext_module ext = Some m \<and> collect_data_attr m = Some f
                       \<and> f (globals m) = Raises e)"
  shows "fst (collect_data st1) = []
       \<and> (\<exists>st'. run env st = Inr st'
             \<and> trace st' = trace (snd (collect_data st1))
                            @ banner ''No data collected from extensions.''
             \<and> filter is_call (trace st') = filter is_call (trace st))"
proof -
  have "\<forall>(n, ext) \<in> set (extensions st1). contribution ext = None"
    using none by (auto simp: contribution_def)
  then have e: "fst (collect_data st1) = []"
    by (simp add: collect_data_def Let_def collect_nothing)
  let ?s = "snd (collect_data st1)"
  have r: "run env st
            = Inr (?s\<lparr>trace := trace ?s @ banner ''No data collected from extensions.''\<rparr>)"
    by (simp add: run_def init Let_def e process_data_def)
  have "filter is_call (trace ?s @ banner ''No data collected from extensions.'')
          = filter is_call (trace st)"
    using initialize_facts(1) [OF init] by (simp add: collect_data_frame banner_calls)
  with e r show ?thesis by simp
qed



lemmas run_eval =
  run_def initialize_def load_config_def load_ai_provider_def load_extensions_def
  load_one_def load_extension_module_def load_error_def
  AIConfig_from_dict_def Extension_from_dict_def dict_get_def AList.merge_def
  builtin_path_def user_path_def EXTENSIONS_DIR_def CONFIG_FILE_def
  example_env_def example_config_def DevAssist_init_def const_module_def
  collect_data_def collect_step_def process_data_def query_ai_def
  query_claude_def query_openai_def query_local_llama_def Let_def


theorem no_data_no_backend_call_witness:
  "\<exists>st1 st'.
      initialize (example_env (Raises ''timed out'')
                    (example_config ''claude'' (PStr ''sk-test'') True)) DevAssist_init = Inr st1
      \<and> map fst (extensions st1) = [''notes'']
      \<and> fst (collect_data st1) = []
      \<and> run (example_env (Raises ''timed out'')
                (example_config ''claude'' (PStr ''sk-test'') True)) DevAssist_init = Inr st'
      \<and> trace st' = trace (snd (collect_data st1))
                      @ banner ''No data collected from extensions.''
      \<and> filter is_call (trace st') = []"
proof -
  let ?env = "example_env (Raises ''timed out'') (example_config ''claude'' (PStr ''sk-test'') True)"
  have "\<exists>st1. initialize ?env DevAssist_init = Inr st1
          \<and> extensions st1
              = [(''notes'', \<lparr> ext_name = PStr ''notes'', ext_enabled = PBool True,
                              ext_config = PDict [],
                              ext_module = Some (const_module (Raises ''timed out'')) \<rparr>)]"
    by (simp add: run_eval)
  then obtain st1 where i: "initialize ?env DevAssist_init = Inr st1"
    and x: "extensions st1
              = [(''notes'', \<lparr> ext_name = PStr ''notes'', ext_enabled = PBool True,
                              ext_config = PDict [],
                              ext_module = Some (const_module (Raises ''timed out'')) \<rparr>)]"
    by blast
  have n: "\<forall>(n, ext) \<in> set (extensions st1).
                 \<not> truthy (ext_enabled ext) \<or> ext_module ext = None
                 \<or> (\<exists>m f e. ext_module ext = Some m \<and> collect_data_attr m = Some f
                       \<and> f (globals m) = Raises e)"
    by (simp add: x const_module_def)
  from no_data_no_backend_call [OF i n] obtain st' where
    "fst (collect_data st1) = []" "run ?env DevAssist_init = Inr st'"
    "trace st' = trace (snd (collect_data st1)) @ banner ''No data collected from extensions.''"
    "filter is_call (trace st') = filter is_call (trace (DevAssist_init :: unit DevAssist))"
    by blast
  then show ?thesis using i x by (simp add: DevAssist_init_def)
qed

text \<open>
  C2 as stated fails: with the only connector disabled and a working, configured
  \<^verbatim>\<open>claude\<close> backend, the complete trace of the run has the log records, then the
  banner with \<^verbatim>\<open>No data collected from extensions.\<close>, and no backend call.
\<close>

theorem backend_skipped_when_nothing_enabled:
  "map_sum id trace
     (run (example_env (Returns (PStr ''buy milk''))
             (example_config ''claude'' (PStr ''sk-test'') False))
        DevAssist_init)
   = Inr ([Log INFO ''Configuration loaded from {CONFIG_FILE}''
             [PStr ''/home/dev/.devassist/config.json''],
           Log INFO ''Using Claude API'' [],
           Log INFO ''Extension {name} is disabled, skipping'' [PStr ''notes''],
           Log INFO ''DevAssist initialized'' []]
          @ banner ''No data collected from extensions.'')"
  by (simp add: run_eval)



end
